theory Spec2Isabelle
  imports Main "HOL-Library.Word"
begin

unbundle bit_operations_syntax

section \<open>Data model\<close>

text \<open>
  The repository holds three near-identical programs around one class \<open>UTXOManager\<close>:
  \<open>Perfect_Cuckoo_Filter.cpp\<close> and \<open>computational_Time_CuckooUTXO.cpp\<close> fix the
  parameters as compile-time constants, \<open>rst2.cpp\<close> keeps them as fields set by its
  constructor. The embedding follows \<open>rst2.cpp\<close> and takes the parameters from a
  \<open>config\<close>; the two other files are the instance \<open>pcf_config\<close>.
  \<open>uint32_t\<close> is \<open>32 word\<close>, \<open>uint64_t\<close> is \<open>64 word\<close>, \<open>size_t\<close> values (sizes,
  counts, the recursion depth) are \<open>nat\<close>: none of them comes near \<open>2 ^ 64\<close>.
\<close>

type_synonym u32 = "32 word"
type_synonym u64 = "64 word"

record UTXOValue =
  coinbase :: bool
  height :: u64
  amount :: u64
  script :: string
  address :: string

record BucketEntry =
  fingerprint :: u32
  selector_bit :: bool \<comment> \<open>source comment: 0 for primary, 1 for alternate bucket\<close>
  val :: UTXOValue

record config =
  BUCKET_SIZE :: nat
  NUM_BUCKETS :: nat
  MAX_RELOCATIONS :: nat
  FINGERPRINT_BITS :: nat
  BUCKET_BITS :: nat

text \<open>
  The object's mutable state: the vector of buckets, and the pseudo-random generator.
  \<open>rand_src\<close> is the sequence of numbers the generator returns (any sequence: the
  seed comes from the clock), \<open>rand_calls\<close> how many of them have been drawn.
\<close>

record manager =
  buckets :: "BucketEntry list list"
  rand_src :: "nat \<Rightarrow> nat"
  rand_calls :: nat

text \<open>The constants of \<open>Perfect_Cuckoo_Filter.cpp\<close> and \<open>computational_Time_CuckooUTXO.cpp\<close>.\<close>

definition pcf_config :: config where
  "pcf_config = \<lparr>BUCKET_SIZE = 4, NUM_BUCKETS = 524288, MAX_RELOCATIONS = 500,
                 FINGERPRINT_BITS = 13, BUCKET_BITS = 19\<rparr>"

section \<open>Hash and addresses\<close>

text \<open>One round of the inner loop: \<open>crc = (crc >> 1) ^ ((crc & 1) ? polynomial : 0)\<close>.\<close>

definition crc_round :: "u32 \<Rightarrow> u32" where
  "crc_round crc = drop_bit 1 crc XOR (if crc AND 1 \<noteq> 0 then 0xEDB88320 else 0)"

primrec crc_rounds :: "nat \<Rightarrow> u32 \<Rightarrow> u32" where
  "crc_rounds 0 crc = crc"
| "crc_rounds (Suc n) crc = crc_rounds n (crc_round crc)"

definition crc_byte :: "char \<Rightarrow> u32 \<Rightarrow> u32" where
  "crc_byte c crc = crc_rounds 8 (crc XOR of_char c)"

definition crc32_hash :: "string \<Rightarrow> u32" where
  "crc32_hash key = NOT (fold crc_byte key 0xFFFFFFFF)"

text \<open>
  \<open>(1 << n) - 1\<close>, converted to \<open>uint32_t\<close> by the \<open>&\<close> it is an operand of. The
  shift is an \<open>int\<close> shift, defined for \<open>n \<le> 30\<close>; the repository's configurations
  have \<open>n \<le> 20\<close>.
\<close>

definition low_mask :: "nat \<Rightarrow> u32" where
  "low_mask n = push_bit n 1 - 1"

definition get_bucket_fingerprint :: "config \<Rightarrow> string \<Rightarrow> u32 \<times> u32" where
  "get_bucket_fingerprint cfg key =
     (let h = crc32_hash key
      in (h AND low_mask (BUCKET_BITS cfg),
          drop_bit (BUCKET_BITS cfg) h AND low_mask (FINGERPRINT_BITS cfg)))"

definition get_alt_bucket :: "config \<Rightarrow> u32 \<Rightarrow> u32 \<Rightarrow> u32" where
  "get_alt_bucket cfg bucket fp =
     (let fp_hash = fp * 0xCC9E2D51
      in bucket XOR (fp_hash AND low_mask (BUCKET_BITS cfg)))"

section \<open>Bucket primitives\<close>

text \<open>
  The scans of \<open>add_utxo\<close>, \<open>get_utxo\<close> and \<open>remove_utxo\<close> all look for the first
  entry of a bucket with a given fingerprint and selector bit.
\<close>

definition matches :: "u32 \<Rightarrow> bool \<Rightarrow> BucketEntry \<Rightarrow> bool" where
  "matches fp sb entry \<longleftrightarrow> fingerprint entry = fp \<and> selector_bit entry = sb"

fun find_entry :: "u32 \<Rightarrow> bool \<Rightarrow> BucketEntry list \<Rightarrow> BucketEntry option" where
  "find_entry fp sb [] = None"
| "find_entry fp sb (entry # rest) =
     (if matches fp sb entry then Some entry else find_entry fp sb rest)"

text \<open>\<open>erase(it)\<close> at the first match; \<open>None\<close> when the loop runs to the end.\<close>

fun erase_entry :: "u32 \<Rightarrow> bool \<Rightarrow> BucketEntry list \<Rightarrow> BucketEntry list option" where
  "erase_entry fp sb [] = None"
| "erase_entry fp sb (entry # rest) =
     (if matches fp sb entry then Some rest
      else map_option (Cons entry) (erase_entry fp sb rest))"

text \<open>\<open>buckets[i].push_back(entry)\<close> and \<open>buckets[i][j] = entry\<close>.\<close>

definition push_back :: "nat \<Rightarrow> BucketEntry \<Rightarrow> manager \<Rightarrow> manager" where
  "push_back i entry s = s\<lparr>buckets := (buckets s)[i := buckets s ! i @ [entry]]\<rparr>"

definition set_slot :: "nat \<Rightarrow> nat \<Rightarrow> BucketEntry \<Rightarrow> manager \<Rightarrow> manager" where
  "set_slot i j entry s = s\<lparr>buckets := (buckets s)[i := (buckets s ! i)[j := entry]]\<rparr>"

text \<open>One draw from the generator (\<open>rand()\<close>, or the \<open>mt19937_64\<close> of \<open>rst2.cpp\<close>).\<close>

definition rand :: "manager \<Rightarrow> nat \<times> manager" where
  "rand s = (rand_src s (rand_calls s), s\<lparr>rand_calls := rand_calls s + 1\<rparr>)"

section \<open>The relocation walk\<close>

text \<open>
  \<open>UTXOManager::relocate\<close>. The three index guards (\<open>>= NUM_BUCKETS\<close>) are those of
  \<open>rst2.cpp\<close>; the two other files have none, and need none, their indices being
  masked to 19 bits with \<open>NUM_BUCKETS = 1 << 19\<close>. The victim index is
  \<open>rand() % size\<close>, respectively a uniform draw from \<open>[0, size - 1]\<close>: some index below
  \<open>size\<close>, which is at least \<open>BUCKET_SIZE\<close> there. With \<open>BUCKET_SIZE = 0\<close> the source
  would divide by zero or read out of range; the theorems below exclude that
  configuration.
\<close>

function relocate ::
  "config \<Rightarrow> u32 \<Rightarrow> u32 \<Rightarrow> UTXOValue \<Rightarrow> nat \<Rightarrow> manager \<Rightarrow> bool \<times> manager" where
  "relocate cfg bucket fp v depth s =
     (if depth > MAX_RELOCATIONS cfg then (False, s)
      else if unat bucket \<ge> NUM_BUCKETS cfg then (False, s)
      else
        let alt_bucket = get_alt_bucket cfg bucket fp in
        if unat alt_bucket \<ge> NUM_BUCKETS cfg then (False, s)
        else if length (buckets s ! unat alt_bucket) < BUCKET_SIZE cfg
        then (True, push_back (unat alt_bucket)
                      \<lparr>fingerprint = fp, selector_bit = True, val = v\<rparr> s)
        else
          let r = fst (rand s);
              s1 = snd (rand s);
              evict_idx = r mod length (buckets s1 ! unat alt_bucket);
              evicted = buckets s1 ! unat alt_bucket ! evict_idx;
              s2 = set_slot (unat alt_bucket) evict_idx
                     \<lparr>fingerprint = fp, selector_bit = True, val = v\<rparr> s1;
              new_bucket0 = get_alt_bucket cfg alt_bucket (fingerprint evicted);
              new_bucket =
                (if selector_bit evicted
                 then alt_bucket XOR
                        (fingerprint evicted * 0xCC9E2D51 AND low_mask (BUCKET_BITS cfg))
                 else new_bucket0)
          in
            if unat new_bucket \<ge> NUM_BUCKETS cfg then (False, s2)
            else if length (buckets s2 ! unat new_bucket) < BUCKET_SIZE cfg
            then (True, push_back (unat new_bucket) evicted s2)
            else relocate cfg new_bucket (fingerprint evicted) (val evicted) (depth + 1) s2)"
  by pat_completeness auto
termination
  by (relation "measure (\<lambda>(cfg, bucket, fp, v, depth, s). MAX_RELOCATIONS cfg + 1 - depth)")
    auto

declare relocate.simps [simp del]

section \<open>The public operations\<close>

definition add_utxo :: "config \<Rightarrow> string \<Rightarrow> UTXOValue \<Rightarrow> manager \<Rightarrow> bool \<times> manager" where
  "add_utxo cfg key v s =
     (let bucket = fst (get_bucket_fingerprint cfg key);
          fp = snd (get_bucket_fingerprint cfg key)
      in
        if unat bucket \<ge> NUM_BUCKETS cfg then (False, s)
        else if find_entry fp False (buckets s ! unat bucket) \<noteq> None then (False, s)
        else
          let alt_bucket = get_alt_bucket cfg bucket fp in
          if unat alt_bucket \<ge> NUM_BUCKETS cfg then (False, s)
          else if find_entry fp True (buckets s ! unat alt_bucket) \<noteq> None then (False, s)
          else if length (buckets s ! unat bucket) < BUCKET_SIZE cfg
          then (True, push_back (unat bucket)
                        \<lparr>fingerprint = fp, selector_bit = False, val = v\<rparr> s)
          else if length (buckets s ! unat alt_bucket) < BUCKET_SIZE cfg
          then (True, push_back (unat alt_bucket)
                        \<lparr>fingerprint = fp, selector_bit = True, val = v\<rparr> s)
          else relocate cfg bucket fp v 0 s)"

text \<open>\<open>get_utxo\<close> returns a pointer to the stored value, or \<open>nullptr\<close>: \<open>None\<close>.\<close>

definition get_utxo :: "config \<Rightarrow> string \<Rightarrow> manager \<Rightarrow> UTXOValue option" where
  "get_utxo cfg key s =
     (let bucket = fst (get_bucket_fingerprint cfg key);
          fp = snd (get_bucket_fingerprint cfg key)
      in
        if unat bucket \<ge> NUM_BUCKETS cfg then None
        else
          case find_entry fp False (buckets s ! unat bucket) of
            Some entry \<Rightarrow> Some (val entry)
          | None \<Rightarrow>
              let alt_bucket = get_alt_bucket cfg bucket fp in
              if unat alt_bucket \<ge> NUM_BUCKETS cfg then None
              else
                case find_entry fp True (buckets s ! unat alt_bucket) of
                  Some entry \<Rightarrow> Some (val entry)
                | None \<Rightarrow> None)"

text \<open>
  \<open>remove_utxo\<close> of \<open>Perfect_Cuckoo_Filter.cpp\<close> (\<open>delete_utxo\<close> in
  \<open>computational_Time_CuckooUTXO.cpp\<close>). Both files fix \<open>NUM_BUCKETS = 1 << 19\<close>, so
  the function has no index guard; the theorems about it assume
  \<open>NUM_BUCKETS = 2 ^ BUCKET_BITS\<close>, which keeps both indices in range.
\<close>

definition remove_utxo :: "config \<Rightarrow> string \<Rightarrow> manager \<Rightarrow> bool \<times> manager" where
  "remove_utxo cfg key s =
     (let bucket = fst (get_bucket_fingerprint cfg key);
          fp = snd (get_bucket_fingerprint cfg key)
      in
        case erase_entry fp False (buckets s ! unat bucket) of
          Some primary \<Rightarrow> (True, s\<lparr>buckets := (buckets s)[unat bucket := primary]\<rparr>)
        | None \<Rightarrow>
            let alt_bucket = get_alt_bucket cfg bucket fp in
            case erase_entry fp True (buckets s ! unat alt_bucket) of
              Some alternate \<Rightarrow>
                (True, s\<lparr>buckets := (buckets s)[unat alt_bucket := alternate]\<rparr>)
            | None \<Rightarrow> (False, s))"

definition count :: "manager \<Rightarrow> nat" where
  "count s = sum_list (map length (buckets s))"

text \<open>
  The constructor of the fixed-parameter files: \<open>buckets(NUM_BUCKETS)\<close>, every bucket
  empty; \<open>seed\<close> stands for the generator seeded from the clock.
\<close>

definition new_manager :: "config \<Rightarrow> (nat \<Rightarrow> nat) \<Rightarrow> manager" where
  "new_manager cfg seed =
     \<lparr>buckets = replicate (NUM_BUCKETS cfg) [], rand_src = seed, rand_calls = 0\<rparr>"

text \<open>Sequences of calls on one manager.\<close>

datatype operation = Add string UTXOValue | Remove string

fun apply_operation :: "config \<Rightarrow> operation \<Rightarrow> manager \<Rightarrow> bool \<times> manager" where
  "apply_operation cfg (Add key v) s = add_utxo cfg key v s"
| "apply_operation cfg (Remove key) s = remove_utxo cfg key s"

fun run :: "config \<Rightarrow> operation list \<Rightarrow> manager \<Rightarrow> manager" where
  "run cfg [] s = s"
| "run cfg (op # ops) s = run cfg ops (snd (apply_operation cfg op s))"

text \<open>
  The constructor of \<open>rst2.cpp\<close>:
  \<open>UTXOManager(size_t num_buckets, size_t bucket_size, uint32_t fingerprint_bits)\<close>.
  Its initialiser list sets \<open>MAX_RELOCATIONS(100)\<close> and
  \<open>BUCKET_BITS(ceil(log2(num_buckets)))\<close> and allocates \<open>buckets(num_buckets)\<close>; its
  body calls \<open>bucket.reserve(bucket_size)\<close> on every bucket in turn. It has no \<open>throw\<close>,
  no \<open>assert\<close> and no test of its arguments; the only failures are those of the two
  library calls: \<open>std::length_error\<close> when a size exceeds the vector's \<open>max_size()\<close>,
  and \<open>std::bad_alloc\<close> when the allocator refuses a request.

  The limits and the allocator belong to the C++ library and the machine, not to the
  repository, so they are parameters: \<open>outer_max_size\<close> and \<open>inner_max_size\<close> are the
  \<open>max_size()\<close> of the vector of buckets and of one bucket, \<open>grants_outer n\<close> tells
  whether the allocator provides the storage of \<open>n\<close> buckets, \<open>grants_inner j n\<close> whether
  it provides the storage of \<open>n\<close> entries for bucket \<open>j\<close>. A vector of size 0 and a
  \<open>reserve(0)\<close> allocate nothing.

  \<open>ceil_log2\<close> is the exact \<open>\<lceil>log2 n\<rceil>\<close> for \<open>n \<ge> 1\<close>, which the double-precision
  computation agrees with for every \<open>n\<close> up to \<open>2 ^ 32\<close>; the theorems say nothing of
  \<open>BUCKET_BITS\<close> beyond that, nor for \<open>n = 0\<close>, where the source converts minus
  infinity to \<open>uint32_t\<close>, which C++ leaves undefined.
\<close>

datatype ctor_error = LengthError | BadAlloc

record platform =
  outer_max_size :: nat
  inner_max_size :: nat
  grants_outer :: "nat \<Rightarrow> bool"
  grants_inner :: "nat \<Rightarrow> nat \<Rightarrow> bool"

fun ceil_log2 :: "nat \<Rightarrow> nat" where
  "ceil_log2 n = (if n \<le> 1 then 0 else Suc (ceil_log2 ((n + 1) div 2)))"

declare ceil_log2.simps [simp del]

text \<open>\<open>buckets(num_buckets)\<close>: the vector of \<open>n\<close> empty buckets.\<close>

definition allocate_buckets :: "platform \<Rightarrow> nat \<Rightarrow> ctor_error + BucketEntry list list" where
  "allocate_buckets pf n =
     (if outer_max_size pf < n then Inl LengthError
      else if 0 < n \<and> \<not> grants_outer pf n then Inl BadAlloc
      else Inr (replicate n []))"

text \<open>\<open>bucket.reserve(n)\<close> on bucket \<open>j\<close>, which is empty and has no capacity yet.\<close>

definition reserve :: "platform \<Rightarrow> nat \<Rightarrow> nat \<Rightarrow> ctor_error option" where
  "reserve pf j n =
     (if inner_max_size pf < n then Some LengthError
      else if 0 < n \<and> \<not> grants_inner pf j n then Some BadAlloc
      else None)"

text \<open>
  The loop \<open>for (auto& bucket : buckets) bucket.reserve(bucket_size)\<close> over the first
  \<open>k\<close> buckets; the first exception leaves the loop and the constructor.
\<close>

primrec reserve_first :: "platform \<Rightarrow> nat \<Rightarrow> nat \<Rightarrow> ctor_error option" where
  "reserve_first pf n 0 = None"
| "reserve_first pf n (Suc k) =
     (case reserve_first pf n k of Some e \<Rightarrow> Some e | None \<Rightarrow> reserve pf k n)"

definition UTXOManager ::
  "platform \<Rightarrow> 64 word \<Rightarrow> 64 word \<Rightarrow> 32 word \<Rightarrow> (nat \<Rightarrow> nat)
     \<Rightarrow> ctor_error + config \<times> manager" where
  "UTXOManager pf num_buckets bucket_size fingerprint_bits seed =
     (let cfg = \<lparr>BUCKET_SIZE = unat bucket_size, NUM_BUCKETS = unat num_buckets,
                  MAX_RELOCATIONS = 100, FINGERPRINT_BITS = unat fingerprint_bits,
                  BUCKET_BITS = ceil_log2 (unat num_buckets)\<rparr>
      in case allocate_buckets pf (unat num_buckets) of
           Inl e \<Rightarrow> Inl e
         | Inr bs \<Rightarrow>
             (case reserve_first pf (unat bucket_size) (length bs) of
                Some e \<Rightarrow> Inl e
              | None \<Rightarrow> Inr (cfg, \<lparr>buckets = bs, rand_src = seed, rand_calls = 0\<rparr>)))"

text \<open>
  One platform for the examples: the limits of libstdc++ on a 64-bit machine (a bucket
  header of 24 bytes, an entry of \<open>rst2.cpp\<close> of 32 bytes), and an allocator that
  grants every request of up to 4 GiB.
\<close>

definition lp64 :: platform where
  "lp64 = \<lparr>outer_max_size = (2 ^ 63 - 1) div 24, inner_max_size = (2 ^ 63 - 1) div 32,
            grants_outer = (\<lambda>n. n * 24 \<le> 2 ^ 32),
            grants_inner = (\<lambda>j n. n * 32 \<le> 2 ^ 32)\<rparr>"

section \<open>Vocabulary of the properties\<close>

text \<open>
  The parameters all three programs run with: a positive bucket size and a number of
  buckets that is the power of two \<open>1 << BUCKET_BITS\<close>. A table belongs to a
  configuration when it has \<open>NUM_BUCKETS\<close> buckets.
\<close>

definition well_configured :: "config \<Rightarrow> bool" where
  "well_configured cfg \<longleftrightarrow> 0 < BUCKET_SIZE cfg \<and> NUM_BUCKETS cfg = 2 ^ BUCKET_BITS cfg"

definition table_sized :: "config \<Rightarrow> manager \<Rightarrow> bool" where
  "table_sized cfg s \<longleftrightarrow> length (buckets s) = NUM_BUCKETS cfg"

definition capacity_ok :: "config \<Rightarrow> manager \<Rightarrow> bool" where
  "capacity_ok cfg s \<longleftrightarrow> (\<forall>b \<in> set (buckets s). length b \<le> BUCKET_SIZE cfg)"

text \<open>
  Names for the parts of one eviction step of \<open>relocate\<close>, as functions of the call's
  arguments: the evicted entry, the state after the slot has been overwritten, and
  the bucket the evicted entry is sent to.
\<close>

definition victim :: "config \<Rightarrow> u32 \<Rightarrow> u32 \<Rightarrow> manager \<Rightarrow> BucketEntry" where
  "victim cfg bucket fp s =
     (let alt_bucket = unat (get_alt_bucket cfg bucket fp)
      in buckets s ! alt_bucket ! (fst (rand s) mod length (buckets s ! alt_bucket)))"

definition swapped :: "config \<Rightarrow> u32 \<Rightarrow> u32 \<Rightarrow> UTXOValue \<Rightarrow> manager \<Rightarrow> manager" where
  "swapped cfg bucket fp v s =
     (let alt_bucket = unat (get_alt_bucket cfg bucket fp)
      in set_slot alt_bucket (fst (rand s) mod length (buckets s ! alt_bucket))
           \<lparr>fingerprint = fp, selector_bit = True, val = v\<rparr> (snd (rand s)))"

definition target :: "config \<Rightarrow> u32 \<Rightarrow> u32 \<Rightarrow> manager \<Rightarrow> u32" where
  "target cfg bucket fp s =
     get_alt_bucket cfg (get_alt_bucket cfg bucket fp) (fingerprint (victim cfg bucket fp s))"

text \<open>
  \<open>reaches_relocate cfg key s\<close>: a call \<open>add_utxo(key, _)\<close> in state \<open>s\<close> passes both
  duplicate checks and finds both candidate buckets full, so that it calls \<open>relocate\<close>.
  \<open>direct_only cfg ops s\<close>: no \<open>add_utxo\<close> of the sequence \<open>ops\<close>, run from \<open>s\<close>, does.
\<close>

definition reaches_relocate :: "config \<Rightarrow> string \<Rightarrow> manager \<Rightarrow> bool" where
  "reaches_relocate cfg key s =
     (let bucket = fst (get_bucket_fingerprint cfg key);
          fp = snd (get_bucket_fingerprint cfg key);
          alt_bucket = get_alt_bucket cfg bucket fp
      in unat bucket < NUM_BUCKETS cfg \<and> unat alt_bucket < NUM_BUCKETS cfg
         \<and> find_entry fp False (buckets s ! unat bucket) = None
         \<and> find_entry fp True (buckets s ! unat alt_bucket) = None
         \<and> BUCKET_SIZE cfg \<le> length (buckets s ! unat bucket)
         \<and> BUCKET_SIZE cfg \<le> length (buckets s ! unat alt_bucket))"



section \<open>Concrete tables\<close>

text \<open>
  Keys for the fixed-parameter programs, with their CRC-32 addresses
  (bucket, fingerprint):
  \<open>tx0:0\<close> (12836, 2172), whose alternate bucket is 18712;
  four keys of bucket 12836; four keys of bucket 18712, the first of them
  \<open>tx3601236:0\<close> (18712, 7466) with alternate bucket 382290; four keys of bucket
  382290. \<open>plumless\<close> and \<open>buckeroo\<close> have the same CRC-32, \<open>0x4DDB0C25\<close>.
  The generator of these tables always returns 0, so the victim is slot 0.
\<close>

definition zero_seed :: "nat \<Rightarrow> nat" where
  "zero_seed n = 0"

definition uv :: "u64 \<Rightarrow> UTXOValue" where
  "uv h = \<lparr>coinbase = False, height = h, amount = 50, script = [], address = []\<rparr>"

definition fill_12836 :: "operation list" where
  "fill_12836 = [Add ''tx3111791:0'' (uv 1), Add ''tx3112393:0'' (uv 2),
                 Add ''tx4020747:0'' (uv 3), Add ''tx4023345:0'' (uv 4)]"

definition fill_18712 :: "operation list" where
  "fill_18712 = [Add ''tx3601236:0'' (uv 5), Add ''tx3602634:0'' (uv 6),
                 Add ''tx3649775:0'' (uv 7), Add ''tx3859899:0'' (uv 8)]"

definition fill_382290 :: "operation list" where
  "fill_382290 = [Add ''tx1188738:0'' (uv 9), Add ''tx1488750:0'' (uv 10),
                  Add ''tx3339350:0'' (uv 11), Add ''tx3371613:0'' (uv 12)]"

text \<open>Buckets 12836 and 18712 full, bucket 382290 empty.\<close>

definition two_full :: manager where
  "two_full = run pcf_config (fill_12836 @ fill_18712) (new_manager pcf_config zero_seed)"

text \<open>Buckets 12836, 382290 and 18712 full.\<close>

definition three_full :: manager where
  "three_full =
     run pcf_config (fill_12836 @ fill_382290 @ fill_18712) (new_manager pcf_config zero_seed)"

text \<open>
  The table after the single insert of \<open>plumless\<close>; the table with buckets 12836 and
  382290 full, before the inserts into bucket 18712; and the operations that follow the
  insert of \<open>tx3601236:0\<close> on the way to \<open>three_full\<close> and one step beyond.
\<close>

definition plum_table :: manager where
  "plum_table = snd (add_utxo pcf_config ''plumless'' (uv 1) (new_manager pcf_config zero_seed))"








text \<open>
  The table \<open>three_full\<close> with slot 0 of bucket 18712 holding \<open>e\<close>, after \<open>n\<close> draws
  from the generator.
\<close>

definition cyc :: "nat \<Rightarrow> BucketEntry \<Rightarrow> manager" where
  "cyc n e = \<lparr>buckets = (replicate 524288 [])
     [12836 :=
        [\<lparr>fingerprint = 7422, selector_bit = False, val = uv 1\<rparr>,
         \<lparr>fingerprint = 4844, selector_bit = False, val = uv 2\<rparr>,
         \<lparr>fingerprint = 2157, selector_bit = False, val = uv 3\<rparr>,
         \<lparr>fingerprint = 1663, selector_bit = False, val = uv 4\<rparr>],
      382290 :=
        [\<lparr>fingerprint = 895, selector_bit = False, val = uv 9\<rparr>,
         \<lparr>fingerprint = 3852, selector_bit = False, val = uv 10\<rparr>,
         \<lparr>fingerprint = 3089, selector_bit = False, val = uv 11\<rparr>,
         \<lparr>fingerprint = 1962, selector_bit = False, val = uv 12\<rparr>],
      18712 :=
        [e,
         \<lparr>fingerprint = 4920, selector_bit = False, val = uv 6\<rparr>,
         \<lparr>fingerprint = 5777, selector_bit = False, val = uv 7\<rparr>,
         \<lparr>fingerprint = 3484, selector_bit = False, val = uv 8\<rparr>]], rand_src = zero_seed, rand_calls = n\<rparr>"

section \<open>Properties of the address functions\<close>

lemma low_mask_eq: "low_mask n = mask n"
  by (simp add: low_mask_def mask_eq_exp_minus_1)

lemma unat_and_low_mask: "unat (w AND low_mask n) < 2 ^ n"
  for w :: u32
  unfolding low_mask_eq
  by (metis and_mask_lt_2p of_nat_less_numeral_power_cancel_iff of_nat_unat)

lemma unat_xor_below:
  fixes a b :: u32
  assumes "unat a < 2 ^ n" "unat b < 2 ^ n"
  shows "unat (a XOR b) < 2 ^ n"
proof -
  have "take_bit n a = a"
    using assms(1) by (metis take_bit_nat_eq_self_iff unsigned_take_bit_eq word_eq_iff_unsigned)
  moreover have "take_bit n b = b"
    using assms(2) by (metis take_bit_nat_eq_self_iff unsigned_take_bit_eq word_eq_iff_unsigned)
  ultimately have "take_bit n (a XOR b) = a XOR b"
    by (simp add: take_bit_xor)
  then have "unat (a XOR b) = unat (take_bit n (a XOR b))"
    by simp
  also have "\<dots> < 2 ^ n"
    by (metis unsigned_take_bit_eq take_bit_nat_less_exp)
  finally show ?thesis .
qed

text \<open>
  Claim C1. The alternate-bucket function is an involution: applying it twice with the
  same fingerprint gives the bucket back, and when the number of buckets is the power
  of two \<open>2 ^ BUCKET_BITS\<close> the alternate of a valid bucket index is a valid bucket
  index. (The fingerprint may be any 32-bit value, so in particular any value below
  \<open>2 ^ FINGERPRINT_BITS\<close>.)
\<close>

theorem get_alt_bucket_involution:
  assumes "NUM_BUCKETS cfg = 2 ^ BUCKET_BITS cfg"
    and "unat b < NUM_BUCKETS cfg"
    and "unat f < 2 ^ FINGERPRINT_BITS cfg"
  shows "get_alt_bucket cfg (get_alt_bucket cfg b f) f = b
       \<and> unat (get_alt_bucket cfg b f) < NUM_BUCKETS cfg"
proof
  show "get_alt_bucket cfg (get_alt_bucket cfg b f) f = b"
    by (simp add: get_alt_bucket_def Let_def xor.assoc)
next
  have "unat ((f * 0xCC9E2D51) AND low_mask (BUCKET_BITS cfg)) < 2 ^ BUCKET_BITS cfg"
    by (rule unat_and_low_mask)
  with assms(1,2) show "unat (get_alt_bucket cfg b f) < NUM_BUCKETS cfg"
    by (simp add: get_alt_bucket_def Let_def unat_xor_below)
qed

theorem get_alt_bucket_involution_witness:
  "NUM_BUCKETS pcf_config = 2 ^ BUCKET_BITS pcf_config
   \<and> unat (12836 :: u32) < NUM_BUCKETS pcf_config
   \<and> unat (2172 :: u32) < 2 ^ FINGERPRINT_BITS pcf_config
   \<and> get_alt_bucket pcf_config (get_alt_bucket pcf_config 12836 2172) 2172 = 12836
   \<and> unat (get_alt_bucket pcf_config 12836 2172) < NUM_BUCKETS pcf_config"
  using get_alt_bucket_involution [of pcf_config 12836 2172]
  by (simp add: pcf_config_def)

section \<open>Lemmas about the relocation walk\<close>

lemma length_buckets_push_back [simp]: "length (buckets (push_back i e s)) = length (buckets s)"
  by (simp add: push_back_def)

lemma length_buckets_set_slot [simp]: "length (buckets (set_slot i j e s)) = length (buckets s)"
  by (simp add: set_slot_def)

lemma buckets_rand [simp]: "buckets (snd (rand s)) = buckets s"
  by (simp add: rand_def)

lemma rand_calls_rand [simp]: "rand_calls (snd (rand s)) = rand_calls s + 1"
  by (simp add: rand_def)

lemma rand_calls_push_back [simp]: "rand_calls (push_back i e s) = rand_calls s"
  by (simp add: push_back_def)

lemma rand_calls_set_slot [simp]: "rand_calls (set_slot i j e s) = rand_calls s"
  by (simp add: set_slot_def)

lemma sizes_set_slot [simp]: "map length (buckets (set_slot i j e s)) = map length (buckets s)"
  by (cases "i < length (buckets s)")
    (simp_all add: set_slot_def map_update list_update_same_conv list_update_beyond)



lemma relocate_unfold:
  "relocate cfg bucket fp v depth s =
     (if depth > MAX_RELOCATIONS cfg then (False, s)
      else if unat bucket \<ge> NUM_BUCKETS cfg then (False, s)
      else if unat (get_alt_bucket cfg bucket fp) \<ge> NUM_BUCKETS cfg then (False, s)
      else if length (buckets s ! unat (get_alt_bucket cfg bucket fp)) < BUCKET_SIZE cfg
      then (True, push_back (unat (get_alt_bucket cfg bucket fp))
                    \<lparr>fingerprint = fp, selector_bit = True, val = v\<rparr> s)
      else if unat (target cfg bucket fp s) \<ge> NUM_BUCKETS cfg
      then (False, swapped cfg bucket fp v s)
      else if length (buckets (swapped cfg bucket fp v s) ! unat (target cfg bucket fp s))
                < BUCKET_SIZE cfg
      then (True, push_back (unat (target cfg bucket fp s)) (victim cfg bucket fp s)
                    (swapped cfg bucket fp v s))
      else relocate cfg (target cfg bucket fp s) (fingerprint (victim cfg bucket fp s))
             (val (victim cfg bucket fp s)) (depth + 1) (swapped cfg bucket fp v s))"
  by (subst relocate.simps)
    (simp add: Let_def victim_def swapped_def target_def get_alt_bucket_def)

lemma relocate_induct2 [case_names step]:
  assumes "\<And>cfg bucket fp v depth s.
     (\<not> depth > MAX_RELOCATIONS cfg \<Longrightarrow> \<not> unat bucket \<ge> NUM_BUCKETS cfg \<Longrightarrow>
      \<not> unat (get_alt_bucket cfg bucket fp) \<ge> NUM_BUCKETS cfg \<Longrightarrow>
      \<not> length (buckets s ! unat (get_alt_bucket cfg bucket fp)) < BUCKET_SIZE cfg \<Longrightarrow>
      \<not> unat (target cfg bucket fp s) \<ge> NUM_BUCKETS cfg \<Longrightarrow>
      \<not> length (buckets (swapped cfg bucket fp v s) ! unat (target cfg bucket fp s))
           < BUCKET_SIZE cfg \<Longrightarrow>
      P cfg (target cfg bucket fp s) (fingerprint (victim cfg bucket fp s))
        (val (victim cfg bucket fp s)) (depth + 1) (swapped cfg bucket fp v s))
     \<Longrightarrow> P cfg bucket fp v depth s"
  shows "P cfg bucket fp v depth s"
proof (induction cfg bucket fp v depth s rule: relocate.induct)
  case (1 cfg bucket fp v depth s)
  show ?case
  proof (rule assms)
    assume c: "\<not> depth > MAX_RELOCATIONS cfg" "\<not> unat bucket \<ge> NUM_BUCKETS cfg"
      "\<not> unat (get_alt_bucket cfg bucket fp) \<ge> NUM_BUCKETS cfg"
      "\<not> length (buckets s ! unat (get_alt_bucket cfg bucket fp)) < BUCKET_SIZE cfg"
      "\<not> unat (target cfg bucket fp s) \<ge> NUM_BUCKETS cfg"
      "\<not> length (buckets (swapped cfg bucket fp v s) ! unat (target cfg bucket fp s))
           < BUCKET_SIZE cfg"
    define alt where "alt = get_alt_bucket cfg bucket fp"
    define idx where "idx = fst (rand s) mod length (buckets (snd (rand s)) ! unat alt)"
    define ev where "ev = buckets (snd (rand s)) ! unat alt ! idx"
    define s2 where "s2 = set_slot (unat alt) idx
        \<lparr>fingerprint = fp, selector_bit = True, val = v\<rparr> (snd (rand s))"
    define nb where "nb =
        (if selector_bit ev
         then alt XOR (fingerprint ev * 0xCC9E2D51 AND low_mask (BUCKET_BITS cfg))
         else get_alt_bucket cfg alt (fingerprint ev))"
    have ev: "victim cfg bucket fp s = ev"
      by (simp add: victim_def ev_def idx_def alt_def Let_def)
    have s2: "swapped cfg bucket fp v s = s2"
      by (simp add: swapped_def s2_def idx_def alt_def Let_def)
    have nb: "target cfg bucket fp s = nb"
      by (simp add: target_def nb_def ev alt_def get_alt_bucket_def)
    have "P cfg nb (fingerprint ev) (val ev) (depth + 1) s2"
    proof (rule 1 [OF c(1) c(2) alt_def _ _ refl refl idx_def ev_def s2_def refl nb_def])
      show "\<not> NUM_BUCKETS cfg \<le> unat alt"
        using c(3) by (simp add: alt_def)
      show "\<not> length (buckets s ! unat alt) < BUCKET_SIZE cfg"
        using c(4) by (simp add: alt_def)
      show "\<not> NUM_BUCKETS cfg \<le> unat nb"
        using c(5) by (simp add: nb)
      show "\<not> length (buckets s2 ! unat nb) < BUCKET_SIZE cfg"
        using c(6) by (simp add: nb s2)
    qed
    then show "P cfg (target cfg bucket fp s) (fingerprint (victim cfg bucket fp s))
        (val (victim cfg bucket fp s)) (depth + 1) (swapped cfg bucket fp v s)"
      by (simp add: ev s2 nb)
  qed
qed

lemma relocate_length: "length (buckets (snd (relocate cfg b f v d s))) = length (buckets s)"
proof (induction cfg b f v d s rule: relocate_induct2)
  case (step cfg bucket fp v depth s)
  show ?case
    apply (subst relocate_unfold)
    using step by (simp add: swapped_def Let_def)
qed

lemma relocate_rand_calls:
  "rand_calls (snd (relocate cfg b f v d s)) \<le> rand_calls s + (MAX_RELOCATIONS cfg + 1 - d)"
proof (induction cfg b f v d s rule: relocate_induct2)
  case (step cfg bucket fp v depth s)
  show ?case
    apply (subst relocate_unfold)
    using step by (auto simp add: swapped_def Let_def)
qed

lemma relocate_False_sizes:
  "\<not> fst (relocate cfg b f v d s) \<Longrightarrow>
   map length (buckets (snd (relocate cfg b f v d s))) = map length (buckets s)"
proof (induction cfg b f v d s rule: relocate_induct2)
  case (step cfg bucket fp v depth s)
  from step.prems show ?case
    apply (subst relocate_unfold)
    apply (subst (asm) relocate_unfold)
    using step.IH by (auto simp add: swapped_def Let_def split: if_splits)
qed

lemma fst_add_utxo_cases:
  "add_utxo cfg key v s =
     (let bucket = fst (get_bucket_fingerprint cfg key);
          fp = snd (get_bucket_fingerprint cfg key);
          alt_bucket = get_alt_bucket cfg bucket fp
      in if reaches_relocate cfg key s then relocate cfg bucket fp v 0 s
         else if unat bucket \<ge> NUM_BUCKETS cfg then (False, s)
         else if find_entry fp False (buckets s ! unat bucket) \<noteq> None then (False, s)
         else if unat alt_bucket \<ge> NUM_BUCKETS cfg then (False, s)
         else if find_entry fp True (buckets s ! unat alt_bucket) \<noteq> None then (False, s)
         else if length (buckets s ! unat bucket) < BUCKET_SIZE cfg
         then (True, push_back (unat bucket)
                       \<lparr>fingerprint = fp, selector_bit = False, val = v\<rparr> s)
         else (True, push_back (unat alt_bucket)
                       \<lparr>fingerprint = fp, selector_bit = True, val = v\<rparr> s))"
  by (auto simp add: add_utxo_def reaches_relocate_def Let_def)

lemma add_utxo_rand_calls:
  "rand_calls (snd (add_utxo cfg key v s)) \<le> rand_calls s + MAX_RELOCATIONS cfg + 1"
  using relocate_rand_calls [of cfg _ _ v 0 s]
  by (simp add: fst_add_utxo_cases Let_def)

lemma add_utxo_False_sizes:
  "\<not> fst (add_utxo cfg key v s) \<Longrightarrow>
   map length (buckets (snd (add_utxo cfg key v s))) = map length (buckets s)"
  using relocate_False_sizes [of cfg _ _ v 0 s]
  by (simp add: fst_add_utxo_cases Let_def split: if_splits)

lemma capacity_ok_nth:
  "capacity_ok cfg s \<longleftrightarrow> (\<forall>i < length (buckets s). length (buckets s ! i) \<le> BUCKET_SIZE cfg)"
  by (simp add: capacity_ok_def all_set_conv_all_nth)

lemma capacity_ok_sizes:
  assumes "map length (buckets s') = map length (buckets s)"
  shows "capacity_ok cfg s' = capacity_ok cfg s"
proof -
  have len: "length (buckets s') = length (buckets s)"
    using assms by (metis length_map)
  have "\<forall>i < length (buckets s). length (buckets s' ! i) = length (buckets s ! i)"
    using assms len by (metis nth_map)
  then show ?thesis
    by (simp add: capacity_ok_nth len)
qed

lemma capacity_ok_update:
  assumes "capacity_ok cfg s" "length b \<le> BUCKET_SIZE cfg"
  shows "capacity_ok cfg (s\<lparr>buckets := (buckets s)[i := b]\<rparr>)"
  using assms set_update_subset_insert [of "buckets s" i b]
  by (auto simp add: capacity_ok_def)

lemma capacity_ok_push_back:
  assumes "capacity_ok cfg s" "length (buckets s ! i) < BUCKET_SIZE cfg"
  shows "capacity_ok cfg (push_back i e s)"
  unfolding push_back_def using assms by (intro capacity_ok_update) simp_all

lemma capacity_ok_swapped: "capacity_ok cfg (swapped cfg b f v s) = capacity_ok cfg s"
  by (rule capacity_ok_sizes) (simp add: swapped_def Let_def)

lemma relocate_capacity:
  "capacity_ok cfg s \<Longrightarrow> capacity_ok cfg (snd (relocate cfg b f v d s))"
proof (induction cfg b f v d s rule: relocate_induct2)
  case (step cfg bucket fp v depth s)
  show ?case
    apply (subst relocate_unfold)
    using step by (simp add: capacity_ok_swapped capacity_ok_push_back)
qed

lemma add_utxo_capacity:
  "capacity_ok cfg s \<Longrightarrow> capacity_ok cfg (snd (add_utxo cfg key v s))"
  using relocate_capacity [of cfg s _ _ v 0]
  by (auto simp add: add_utxo_def Let_def capacity_ok_push_back)

lemma erase_entry_length: "erase_entry fp sb xs = Some ys \<Longrightarrow> Suc (length ys) = length xs"
  by (induction xs arbitrary: ys) (auto split: if_splits)

lemma erase_entry_shorter:
  "erase_entry fp sb xs = Some ys \<Longrightarrow> length xs \<le> n \<Longrightarrow> length ys \<le> n"
  using erase_entry_length [of fp sb xs ys] by simp

lemma capacity_ok_nth_le:
  "capacity_ok cfg s \<Longrightarrow> i < length (buckets s) \<Longrightarrow> length (buckets s ! i) \<le> BUCKET_SIZE cfg"
  by (simp add: capacity_ok_nth)

lemma remove_utxo_capacity:
  assumes "capacity_ok cfg s"
  shows "capacity_ok cfg (snd (remove_utxo cfg key s))"
proof -
  have shorter: "length ys \<le> BUCKET_SIZE cfg"
    if "erase_entry fp sb (buckets s ! i) = Some ys" "i < length (buckets s)" for i fp sb ys
    using that assms by (meson erase_entry_shorter capacity_ok_nth_le)
  have upd: "capacity_ok cfg (s\<lparr>buckets := (buckets s)[i := ys]\<rparr>)"
    if "erase_entry fp sb (buckets s ! i) = Some ys" for i fp sb ys
  proof (cases "i < length (buckets s)")
    case True
    with that shorter assms show ?thesis
      by (intro capacity_ok_update) auto
  next
    case False
    then show ?thesis
      using assms by (simp add: capacity_ok_def list_update_beyond)
  qed
  show ?thesis
    by (auto simp add: remove_utxo_def Let_def assms upd split: option.splits)
qed

section \<open>Evaluation of the concrete tables\<close>

lemma pcf_fields:
  "BUCKET_SIZE pcf_config = 4" "NUM_BUCKETS pcf_config = 524288" "MAX_RELOCATIONS pcf_config = 500"
  "FINGERPRINT_BITS pcf_config = 13" "BUCKET_BITS pcf_config = 19"
  by (simp_all add: pcf_config_def)

lemma crc_rounds_8: "crc_rounds 8 c = crc_round (crc_round (crc_round (crc_round (crc_round (crc_round (crc_round (crc_round c)))))))"
  by (simp add: eval_nat_numeral)

lemma addresses:
  "get_bucket_fingerprint pcf_config ''tx0:0'' = (12836, 2172)"
  "get_bucket_fingerprint pcf_config ''tx3111791:0'' = (12836, 7422)"
  "get_bucket_fingerprint pcf_config ''tx3112393:0'' = (12836, 4844)"
  "get_bucket_fingerprint pcf_config ''tx4020747:0'' = (12836, 2157)"
  "get_bucket_fingerprint pcf_config ''tx4023345:0'' = (12836, 1663)"
  "get_bucket_fingerprint pcf_config ''tx3601236:0'' = (18712, 7466)"
  "get_bucket_fingerprint pcf_config ''tx3602634:0'' = (18712, 4920)"
  "get_bucket_fingerprint pcf_config ''tx3649775:0'' = (18712, 5777)"
  "get_bucket_fingerprint pcf_config ''tx3859899:0'' = (18712, 3484)"
  "get_bucket_fingerprint pcf_config ''tx1188738:0'' = (382290, 895)"
  "get_bucket_fingerprint pcf_config ''tx1488750:0'' = (382290, 3852)"
  "get_bucket_fingerprint pcf_config ''tx3339350:0'' = (382290, 3089)"
  "get_bucket_fingerprint pcf_config ''tx3371613:0'' = (382290, 1962)"
  "get_bucket_fingerprint pcf_config ''plumless'' = (199717, 2491)"
  "get_bucket_fingerprint pcf_config ''buckeroo'' = (199717, 2491)"
  by (simp_all add: get_bucket_fingerprint_def crc32_hash_def crc_byte_def crc_rounds_8 crc_round_def low_mask_def pcf_fields)

lemma alternates:
  "get_alt_bucket pcf_config 12836 2172 = 18712"
  "get_alt_bucket pcf_config 18712 2172 = 12836"
  "get_alt_bucket pcf_config 18712 7466 = 382290"
  "get_alt_bucket pcf_config 382290 7466 = 18712"
  by (simp_all add: get_alt_bucket_def low_mask_def pcf_fields)

lemmas eval_add = add_utxo_def addresses get_alt_bucket_def low_mask_def pcf_fields push_back_def
  new_manager_def matches_def

lemma three_full_eq: "three_full = cyc 0 \<lparr>fingerprint = 7466, selector_bit = False, val = uv 5\<rparr>"
  by (simp add: three_full_def cyc_def fill_12836_def fill_382290_def fill_18712_def eval_add)

lemma step_from_12836:
  assumes "d \<le> 500" "fingerprint e = 7466" "val e = uv 5"
  shows "relocate pcf_config 12836 2172 (uv 0) d (cyc n e) =
         relocate pcf_config 382290 7466 (uv 5) (d + 1)
           (cyc (n + 1) \<lparr>fingerprint = 2172, selector_bit = True, val = uv 0\<rparr>)"
  apply (subst relocate_unfold)
  using assms
  by (simp add: alternates pcf_fields target_def victim_def swapped_def cyc_def rand_def
      set_slot_def zero_seed_def)

lemma step_from_382290:
  assumes "d \<le> 500"
  shows "relocate pcf_config 382290 7466 (uv 5) d
           (cyc n \<lparr>fingerprint = 2172, selector_bit = True, val = uv 0\<rparr>) =
         relocate pcf_config 12836 2172 (uv 0) (d + 1)
           (cyc (n + 1) \<lparr>fingerprint = 7466, selector_bit = True, val = uv 5\<rparr>)"
  apply (subst relocate_unfold)
  using assms
  by (simp add: alternates pcf_fields target_def victim_def swapped_def cyc_def rand_def
      set_slot_def zero_seed_def)

lemma walk_round_trips:
  "2 * j \<le> 500 \<Longrightarrow>
   relocate pcf_config 12836 2172 (uv 0) 0
     (cyc 0 \<lparr>fingerprint = 7466, selector_bit = False, val = uv 5\<rparr>) =
   relocate pcf_config 12836 2172 (uv 0) (2 * j)
     (cyc (2 * j) \<lparr>fingerprint = 7466, selector_bit = (j \<noteq> 0), val = uv 5\<rparr>)"
proof (induction j)
  case 0
  show ?case by simp
next
  case (Suc j)
  then have "relocate pcf_config 12836 2172 (uv 0) 0
     (cyc 0 \<lparr>fingerprint = 7466, selector_bit = False, val = uv 5\<rparr>) =
     relocate pcf_config 12836 2172 (uv 0) (2 * j)
     (cyc (2 * j) \<lparr>fingerprint = 7466, selector_bit = (j \<noteq> 0), val = uv 5\<rparr>)"
    by simp
  also have "\<dots> = relocate pcf_config 382290 7466 (uv 5) (2 * j + 1)
           (cyc (2 * j + 1) \<lparr>fingerprint = 2172, selector_bit = True, val = uv 0\<rparr>)"
    using Suc.prems by (intro step_from_12836) simp_all
  also have "\<dots> = relocate pcf_config 12836 2172 (uv 0) (2 * j + 1 + 1)
           (cyc (2 * j + 1 + 1) \<lparr>fingerprint = 7466, selector_bit = True, val = uv 5\<rparr>)"
    using Suc.prems by (intro step_from_382290) simp
  finally show ?case
    by simp
qed

lemma walk_fails:
  "relocate pcf_config 12836 2172 (uv 0) 0 three_full =
     (False, cyc 501 \<lparr>fingerprint = 2172, selector_bit = True, val = uv 0\<rparr>)"
proof -
  have "relocate pcf_config 12836 2172 (uv 0) 0 three_full =
      relocate pcf_config 12836 2172 (uv 0) 500
        (cyc 500 \<lparr>fingerprint = 7466, selector_bit = True, val = uv 5\<rparr>)"
    using walk_round_trips [of 250] by (simp add: three_full_eq)
  also have "\<dots> = relocate pcf_config 382290 7466 (uv 5) 501
           (cyc 501 \<lparr>fingerprint = 2172, selector_bit = True, val = uv 0\<rparr>)"
    using step_from_12836 [of 500 _ 500] by simp
  also have "\<dots> = (False, cyc 501 \<lparr>fingerprint = 2172, selector_bit = True, val = uv 0\<rparr>)"
    by (subst relocate_unfold) (simp add: pcf_fields)
  finally show ?thesis .
qed

lemma failing_insert:
  "add_utxo pcf_config ''tx0:0'' (uv 0) three_full =
     (False, cyc 501 \<lparr>fingerprint = 2172, selector_bit = True, val = uv 0\<rparr>)"
proof -
  have "add_utxo pcf_config ''tx0:0'' (uv 0) three_full =
        relocate pcf_config 12836 2172 (uv 0) 0 three_full"
    by (simp add: three_full_eq cyc_def add_utxo_def addresses alternates pcf_fields matches_def)
  then show ?thesis
    by (simp add: walk_fails)
qed

section \<open>Invariants of the operations\<close>

lemma add_utxo_length: "length (buckets (snd (add_utxo cfg key v s))) = length (buckets s)"
  by (simp add: add_utxo_def Let_def relocate_length)

lemma remove_utxo_length: "length (buckets (snd (remove_utxo cfg key s))) = length (buckets s)"
  by (simp add: remove_utxo_def Let_def split: option.splits)

lemma apply_operation_table_sized:
  "table_sized cfg s \<Longrightarrow> table_sized cfg (snd (apply_operation cfg op s))"
  by (cases op) (simp_all add: table_sized_def add_utxo_length remove_utxo_length)

lemma apply_operation_capacity:
  "capacity_ok cfg s \<Longrightarrow> capacity_ok cfg (snd (apply_operation cfg op s))"
  by (cases op) (simp_all add: add_utxo_capacity remove_utxo_capacity)

lemma run_table_sized: "table_sized cfg s \<Longrightarrow> table_sized cfg (run cfg ops s)"
  by (induction ops arbitrary: s) (simp_all add: apply_operation_table_sized)

lemma run_capacity: "capacity_ok cfg s \<Longrightarrow> capacity_ok cfg (run cfg ops s)"
  by (induction ops arbitrary: s) (simp_all add: apply_operation_capacity)

lemma new_manager_table_sized: "table_sized cfg (new_manager cfg seed)"
  by (simp add: table_sized_def new_manager_def)

lemma new_manager_capacity: "capacity_ok cfg (new_manager cfg seed)"
  by (simp add: capacity_ok_def new_manager_def)

lemma three_full_table_sized: "table_sized pcf_config three_full"
  by (simp add: table_sized_def three_full_eq cyc_def pcf_fields)

section \<open>Termination and resource bound of the walk\<close>

text \<open>
  Claim C6. The relocation walk terminates on every input. \<open>relocate\<close> is a total
  function: its definition above carries the termination proof, by the measure
  \<open>MAX_RELOCATIONS + 1 - depth\<close>. A call whose depth exceeds \<open>MAX_RELOCATIONS\<close> returns
  failure at once and leaves the table as it is. Every eviction step draws exactly one
  number from the generator, so \<open>rand_calls\<close> counts the eviction steps: a call of
  \<open>relocate\<close> at depth \<open>d\<close> makes at most \<open>MAX_RELOCATIONS + 1 - d\<close> of them, and a call
  of \<open>add_utxo\<close>, for every key, value and table, at most \<open>MAX_RELOCATIONS + 1\<close>.
\<close>

theorem relocate_terminates_within_bound:
  assumes "0 < BUCKET_SIZE cfg" and "table_sized cfg s"
  shows "(MAX_RELOCATIONS cfg < depth \<longrightarrow> relocate cfg bucket fp v depth s = (False, s))
       \<and> rand_calls (snd (relocate cfg bucket fp v depth s))
           \<le> rand_calls s + (MAX_RELOCATIONS cfg + 1 - depth)
       \<and> rand_calls (snd (add_utxo cfg key v s)) \<le> rand_calls s + (MAX_RELOCATIONS cfg + 1)"
proof (intro conjI impI)
  assume "MAX_RELOCATIONS cfg < depth"
  then show "relocate cfg bucket fp v depth s = (False, s)"
    by (subst relocate_unfold) simp
next
  show "rand_calls (snd (relocate cfg bucket fp v depth s))
           \<le> rand_calls s + (MAX_RELOCATIONS cfg + 1 - depth)"
    by (rule relocate_rand_calls)
next
  show "rand_calls (snd (add_utxo cfg key v s)) \<le> rand_calls s + (MAX_RELOCATIONS cfg + 1)"
    using add_utxo_rand_calls [of cfg key v s] by simp
qed

theorem relocate_terminates_within_bound_witness:
  "0 < BUCKET_SIZE pcf_config \<and> table_sized pcf_config three_full
   \<and> MAX_RELOCATIONS pcf_config < 501
   \<and> relocate pcf_config 12836 2172 (uv 0) 501 three_full = (False, three_full)
   \<and> rand_calls (snd (add_utxo pcf_config ''tx0:0'' (uv 0) three_full))
       = rand_calls three_full + (MAX_RELOCATIONS pcf_config + 1)"
  using relocate_terminates_within_bound
    [of pcf_config three_full 501 12836 2172 "uv 0" "''tx0:0''"]
  by (simp add: pcf_fields three_full_table_sized failing_insert)
    (simp add: three_full_eq cyc_def)

section \<open>Failed inserts\<close>

text \<open>
  Claim C10. Whenever \<open>add_utxo\<close> returns false, from a duplicate check or from the
  walk running out of depth, \<open>count()\<close> is the same after the call as before it, and
  so is the size of every single bucket: an eviction overwrites one occupied slot, and
  every \<open>push_back\<close> is on a path that returns true.
\<close>

theorem failed_add_keeps_count:
  assumes "0 < BUCKET_SIZE cfg" and "table_sized cfg s"
    and "\<not> fst (add_utxo cfg key v s)"
  shows "count (snd (add_utxo cfg key v s)) = count s
       \<and> map length (buckets (snd (add_utxo cfg key v s))) = map length (buckets s)"
  using add_utxo_False_sizes [OF assms(3)] by (simp add: count_def)

theorem failed_add_keeps_count_witness:
  "0 < BUCKET_SIZE pcf_config \<and> table_sized pcf_config three_full
   \<and> \<not> fst (add_utxo pcf_config ''tx0:0'' (uv 0) three_full)
   \<and> count (snd (add_utxo pcf_config ''tx0:0'' (uv 0) three_full)) = count three_full"
  using failed_add_keeps_count [of pcf_config three_full "''tx0:0''" "uv 0"]
  by (simp add: pcf_fields three_full_table_sized failing_insert)

section \<open>The capacity bound\<close>

text \<open>
  Claim C7. After any sequence of \<open>add_utxo\<close> and \<open>remove_utxo\<close> calls on a freshly
  constructed table, the table still has \<open>NUM_BUCKETS\<close> buckets and none of them holds
  more than \<open>BUCKET_SIZE\<close> entries.
\<close>

theorem bucket_capacity_bound:
  assumes "well_configured cfg" and "i < NUM_BUCKETS cfg"
  shows "length (buckets (run cfg ops (new_manager cfg seed))) = NUM_BUCKETS cfg
       \<and> length (buckets (run cfg ops (new_manager cfg seed)) ! i) \<le> BUCKET_SIZE cfg"
proof -
  have sized: "table_sized cfg (run cfg ops (new_manager cfg seed))"
    by (intro run_table_sized new_manager_table_sized)
  have "capacity_ok cfg (run cfg ops (new_manager cfg seed))"
    by (intro run_capacity new_manager_capacity)
  with sized assms(2) show ?thesis
    by (simp add: table_sized_def capacity_ok_nth)
qed

theorem bucket_capacity_bound_witness:
  "well_configured pcf_config \<and> (18712 :: nat) < NUM_BUCKETS pcf_config
   \<and> length (buckets (run pcf_config (fill_12836 @ fill_382290 @ fill_18712 @
         [Add ''tx0:0'' (uv 0), Remove ''tx4023345:0''])
       (new_manager pcf_config zero_seed)) ! 18712) \<le> BUCKET_SIZE pcf_config"
  using bucket_capacity_bound [of pcf_config 18712
      "fill_12836 @ fill_382290 @ fill_18712 @ [Add ''tx0:0'' (uv 0), Remove ''tx4023345:0'']"
      zero_seed]
  by (simp add: well_configured_def pcf_fields)

section \<open>A failed insert that changes the table\<close>

text \<open>
  The table \<open>three_full\<close> is built from the empty table by twelve successful inserts.
  In it \<open>tx3601236:0\<close> is stored in slot 0 of its primary bucket 18712.
\<close>

lemma lookup_before_failure: "get_utxo pcf_config ''tx3601236:0'' three_full = Some (uv 5)"
  by (simp add: three_full_eq cyc_def get_utxo_def addresses alternates pcf_fields matches_def)

lemma lookup_after_failure:
  "get_utxo pcf_config ''tx3601236:0''
     (cyc 501 \<lparr>fingerprint = 2172, selector_bit = True, val = uv 0\<rparr>) = None"
  by (simp add: cyc_def get_utxo_def addresses alternates pcf_fields matches_def)

text \<open>
  Claim C3. Failed inserts are not atomic. In the table \<open>three_full\<close>, the call
  \<open>add_utxo("tx0:0", uv 0)\<close> returns failure after \<open>MAX_RELOCATIONS + 1 = 501\<close> eviction
  steps, and the buckets after the call differ from the buckets before it: slot 0 of
  bucket 18712 held the entry of \<open>tx3601236:0\<close> and now holds the tuple of the rejected
  key, and \<open>tx3601236:0\<close>, which \<open>get_utxo\<close> found before the call, is no longer found.
\<close>

theorem failed_insert_not_atomic:
  "\<not> fst (add_utxo pcf_config ''tx0:0'' (uv 0) three_full)
   \<and> rand_calls (snd (add_utxo pcf_config ''tx0:0'' (uv 0) three_full))
       = rand_calls three_full + (MAX_RELOCATIONS pcf_config + 1)
   \<and> buckets (snd (add_utxo pcf_config ''tx0:0'' (uv 0) three_full)) \<noteq> buckets three_full
   \<and> buckets three_full ! 18712 ! 0
       = \<lparr>fingerprint = 7466, selector_bit = False, val = uv 5\<rparr>
   \<and> buckets (snd (add_utxo pcf_config ''tx0:0'' (uv 0) three_full)) ! 18712 ! 0
       = \<lparr>fingerprint = 2172, selector_bit = True, val = uv 0\<rparr>
   \<and> get_utxo pcf_config ''tx3601236:0'' three_full = Some (uv 5)
   \<and> get_utxo pcf_config ''tx3601236:0''
        (snd (add_utxo pcf_config ''tx0:0'' (uv 0) three_full)) = None"
proof -
  have slots: "buckets three_full ! 18712 ! 0
       = \<lparr>fingerprint = 7466, selector_bit = False, val = uv 5\<rparr>"
    "buckets (cyc 501 \<lparr>fingerprint = 2172, selector_bit = True, val = uv 0\<rparr>) ! 18712 ! 0
       = \<lparr>fingerprint = 2172, selector_bit = True, val = uv 0\<rparr>"
    by (simp_all add: three_full_eq cyc_def)
  then have "buckets (cyc 501 \<lparr>fingerprint = 2172, selector_bit = True, val = uv 0\<rparr>) ! 18712 ! 0
      \<noteq> buckets three_full ! 18712 ! 0"
    by simp
  then have "buckets (cyc 501 \<lparr>fingerprint = 2172, selector_bit = True, val = uv 0\<rparr>)
      \<noteq> buckets three_full"
    by auto
  with slots show ?thesis
    by (simp add: failing_insert lookup_before_failure lookup_after_failure pcf_fields)
      (simp add: three_full_eq cyc_def)
qed

section \<open>Lookups and the operations that preserve them\<close>

lemma bucket_in_range:
  "well_configured cfg \<Longrightarrow> unat (fst (get_bucket_fingerprint cfg key)) < NUM_BUCKETS cfg"
  by (simp add: well_configured_def get_bucket_fingerprint_def Let_def unat_and_low_mask)

lemma alt_bucket_in_range:
  assumes "well_configured cfg" "unat b < NUM_BUCKETS cfg"
  shows "unat (get_alt_bucket cfg b f) < NUM_BUCKETS cfg"
proof -
  have "unat ((f * 0xCC9E2D51) AND low_mask (BUCKET_BITS cfg)) < 2 ^ BUCKET_BITS cfg"
    by (rule unat_and_low_mask)
  with assms show ?thesis
    by (simp add: well_configured_def get_alt_bucket_def Let_def unat_xor_below)
qed

text \<open>
  In a well-configured table the index guards of \<open>add_utxo\<close>, \<open>get_utxo\<close> and
  \<open>relocate\<close> never fire, which is why the fixed-parameter files can do without them.
\<close>

lemma index_guards_vacuous:
  assumes "well_configured cfg"
  shows "unat (fst (get_bucket_fingerprint cfg key)) < NUM_BUCKETS cfg"
    and "unat bucket < NUM_BUCKETS cfg \<Longrightarrow>
         unat (get_alt_bucket cfg bucket fp) < NUM_BUCKETS cfg
         \<and> unat (target cfg bucket fp s) < NUM_BUCKETS cfg"
  using assms by (simp_all add: bucket_in_range alt_bucket_in_range target_def)



lemma find_entry_None_erase: "find_entry fp sb xs = None \<Longrightarrow> erase_entry fp sb xs = None"
  by (induction xs) (auto split: if_splits)












lemma count_update:
  assumes "i < length (buckets s)"
  shows "count (s\<lparr>buckets := (buckets s)[i := b]\<rparr>) + length (buckets s ! i) = count s + length b"
proof -
  have "sum_list (xs[i := n]) + xs ! i = sum_list xs + n" if "i < length xs" for xs :: "nat list" and n
    using that by (induction xs arbitrary: i) (auto split: nat.splits)
  from this [of "map length (buckets s)" "length b"] assms show ?thesis
    by (simp add: count_def map_update)
qed

lemma count_new_manager: "count (new_manager cfg seed) = 0"
  by (simp add: count_def new_manager_def)

section \<open>Removing a key that is not stored\<close>

text \<open>
  Claim C9, as amended. \<open>remove_utxo\<close> matches on (fingerprint, selector) in the two
  candidate buckets, as \<open>get_utxo\<close> does. For every key that \<open>get_utxo\<close> does not find,
  \<open>remove_utxo\<close> returns false and leaves the whole state, and so \<open>count()\<close>, unchanged.
\<close>

theorem remove_unmatched_is_noop:
  assumes "well_configured cfg" and "table_sized cfg s" and "get_utxo cfg key s = None"
  shows "remove_utxo cfg key s = (False, s) \<and> count (snd (remove_utxo cfg key s)) = count s"
proof -
  let ?b = "fst (get_bucket_fingerprint cfg key)"
  let ?f = "snd (get_bucket_fingerprint cfg key)"
  have b: "unat ?b < NUM_BUCKETS cfg"
    using assms(1) by (rule bucket_in_range)
  then have a: "unat (get_alt_bucket cfg ?b ?f) < NUM_BUCKETS cfg"
    using assms(1) by (intro alt_bucket_in_range)
  from assms(3) a b have "find_entry ?f False (buckets s ! unat ?b) = None"
    and "find_entry ?f True (buckets s ! unat (get_alt_bucket cfg ?b ?f)) = None"
    by (auto simp add: get_utxo_def Let_def split: option.splits)
  then have "erase_entry ?f False (buckets s ! unat ?b) = None"
    and "erase_entry ?f True (buckets s ! unat (get_alt_bucket cfg ?b ?f)) = None"
    by (simp_all add: find_entry_None_erase)
  then show ?thesis
    by (simp add: remove_utxo_def Let_def)
qed

lemma plum_table_eq:
  "add_utxo pcf_config ''plumless'' (uv 1) (new_manager pcf_config zero_seed) =
     (True, \<lparr>buckets = (replicate 524288 [])
        [199717 := [\<lparr>fingerprint = 2491, selector_bit = False, val = uv 1\<rparr>]],
        rand_src = zero_seed, rand_calls = 0\<rparr>)"
  by (simp add: eval_add)

theorem remove_unmatched_is_noop_witness:
  "well_configured pcf_config \<and> table_sized pcf_config plum_table
   \<and> get_utxo pcf_config ''tx0:0'' plum_table = None
   \<and> remove_utxo pcf_config ''tx0:0'' plum_table = (False, plum_table)"
  using remove_unmatched_is_noop [of pcf_config plum_table "''tx0:0''"]
  by (simp add: well_configured_def table_sized_def pcf_fields plum_table_def plum_table_eq
      get_utxo_def addresses alternates)

text \<open>
  The claim as first stated, for every key that was never inserted, fails when the key
  collides with a stored one: only \<open>plumless\<close> is inserted into the empty table, and
  \<open>remove_utxo("buckeroo")\<close> returns true and takes \<open>count()\<close> from 1 to 0.
\<close>

theorem remove_never_inserted_counterexample:
  "fst (add_utxo pcf_config ''plumless'' (uv 1) (new_manager pcf_config zero_seed))
   \<and> ''buckeroo'' \<noteq> ''plumless''
   \<and> fst (remove_utxo pcf_config ''buckeroo'' plum_table)
   \<and> count plum_table = 1
   \<and> count (snd (remove_utxo pcf_config ''buckeroo'' plum_table)) = 0"
proof -
  have removed: "remove_utxo pcf_config ''buckeroo'' plum_table =
      (True, plum_table\<lparr>buckets := (buckets plum_table)[199717 := []]\<rparr>)"
    by (simp add: plum_table_def plum_table_eq remove_utxo_def addresses matches_def)
  have one: "count plum_table = 1"
    using count_update [of 199717 "new_manager pcf_config zero_seed"
        "[\<lparr>fingerprint = 2491, selector_bit = False, val = uv 1\<rparr>]"]
    by (simp add: plum_table_def plum_table_eq count_new_manager) (simp add: new_manager_def pcf_fields)
  have "count (plum_table\<lparr>buckets := (buckets plum_table)[199717 := []]\<rparr>) = 0"
    using count_update [of 199717 plum_table "[]"] one
    by (simp add: plum_table_def plum_table_eq)
  with removed one show ?thesis
    by (simp add: plum_table_eq)
qed

section \<open>Lookups along a sequence of operations\<close>






section \<open>Reading back an inserted key\<close>






section \<open>Colliding keys\<close>











section \<open>Where a relocated entry ends up\<close>

lemma two_full_eq: "two_full = \<lparr>buckets = (replicate 524288 [])
     [12836 :=
        [\<lparr>fingerprint = 7422, selector_bit = False, val = uv 1\<rparr>,
         \<lparr>fingerprint = 4844, selector_bit = False, val = uv 2\<rparr>,
         \<lparr>fingerprint = 2157, selector_bit = False, val = uv 3\<rparr>,
         \<lparr>fingerprint = 1663, selector_bit = False, val = uv 4\<rparr>],
      18712 :=
        [\<lparr>fingerprint = 7466, selector_bit = False, val = uv 5\<rparr>,
         \<lparr>fingerprint = 4920, selector_bit = False, val = uv 6\<rparr>,
         \<lparr>fingerprint = 5777, selector_bit = False, val = uv 7\<rparr>,
         \<lparr>fingerprint = 3484, selector_bit = False, val = uv 8\<rparr>]],
     rand_src = zero_seed, rand_calls = 0\<rparr>"
  by (simp add: two_full_def fill_12836_def fill_18712_def eval_add)

lemma moving_insert:
  "add_utxo pcf_config ''tx0:0'' (uv 0) two_full = (True, \<lparr>buckets = (replicate 524288 [])
     [12836 :=
        [\<lparr>fingerprint = 7422, selector_bit = False, val = uv 1\<rparr>,
         \<lparr>fingerprint = 4844, selector_bit = False, val = uv 2\<rparr>,
         \<lparr>fingerprint = 2157, selector_bit = False, val = uv 3\<rparr>,
         \<lparr>fingerprint = 1663, selector_bit = False, val = uv 4\<rparr>],
      18712 :=
        [\<lparr>fingerprint = 2172, selector_bit = True, val = uv 0\<rparr>,
         \<lparr>fingerprint = 4920, selector_bit = False, val = uv 6\<rparr>,
         \<lparr>fingerprint = 5777, selector_bit = False, val = uv 7\<rparr>,
         \<lparr>fingerprint = 3484, selector_bit = False, val = uv 8\<rparr>],
      382290 := [\<lparr>fingerprint = 7466, selector_bit = False, val = uv 5\<rparr>]],
     rand_src = zero_seed, rand_calls = 1\<rparr>)"
proof -
  have "add_utxo pcf_config ''tx0:0'' (uv 0) two_full =
        relocate pcf_config 12836 2172 (uv 0) 0 two_full"
    by (simp add: two_full_eq add_utxo_def addresses alternates pcf_fields matches_def)
  also have "\<dots> = (True, push_back 382290 \<lparr>fingerprint = 7466, selector_bit = False, val = uv 5\<rparr>
      (swapped pcf_config 12836 2172 (uv 0) two_full))"
    by (subst relocate_unfold)
      (simp add: alternates pcf_fields target_def victim_def swapped_def two_full_eq rand_def
        set_slot_def zero_seed_def)
  finally show ?thesis
    by (simp add: swapped_def alternates two_full_eq rand_def set_slot_def zero_seed_def push_back_def)
qed

text \<open>
  Claim C2 says that the entry of a key sits in the key's primary bucket with selector
  false or in its alternate bucket with selector true, after every operation. The walk
  breaks this: \<open>push_back(evicted)\<close> moves an entry to its other bucket with the selector
  bit it had. In \<open>two_full\<close> the entry of \<open>tx3601236:0\<close> is in its primary bucket 18712;
  the successful insert of \<open>tx0:0\<close> moves it to its alternate bucket 382290 with
  selector false, where \<open>get_utxo\<close> no longer finds it.
\<close>

theorem relocated_entry_keeps_selector:
  "get_bucket_fingerprint pcf_config ''tx3601236:0'' = (18712, 7466)
   \<and> get_alt_bucket pcf_config 18712 7466 = 382290
   \<and> get_utxo pcf_config ''tx3601236:0'' two_full = Some (uv 5)
   \<and> fst (add_utxo pcf_config ''tx0:0'' (uv 0) two_full)
   \<and> buckets (snd (add_utxo pcf_config ''tx0:0'' (uv 0) two_full)) ! 382290
       = [\<lparr>fingerprint = 7466, selector_bit = False, val = uv 5\<rparr>]
   \<and> get_utxo pcf_config ''tx3601236:0'' (snd (add_utxo pcf_config ''tx0:0'' (uv 0) two_full))
       = None"
proof -
  have "get_utxo pcf_config ''tx3601236:0'' two_full = Some (uv 5)"
    by (simp add: two_full_eq get_utxo_def addresses alternates pcf_fields matches_def)
  then show ?thesis
    by (simp add: moving_insert addresses alternates)
      (simp add: get_utxo_def addresses alternates pcf_fields matches_def)
qed

section \<open>Construction\<close>

lemma ceil_log2_upper: "n \<le> 2 ^ ceil_log2 n"
proof (induction n rule: ceil_log2.induct)
  case (1 n)
  show ?case
  proof (cases "n \<le> 1")
    case True
    then show ?thesis
      by (subst ceil_log2.simps) simp
  next
    case False
    with 1 have "(n + 1) div 2 \<le> 2 ^ ceil_log2 ((n + 1) div 2)"
      by simp
    then have "n \<le> 2 * 2 ^ ceil_log2 ((n + 1) div 2)"
      by linarith
    with False show ?thesis
      by (subst ceil_log2.simps) simp
  qed
qed

lemma ceil_log2_lower: "0 < ceil_log2 n \<Longrightarrow> 2 ^ (ceil_log2 n - 1) < n"
proof (induction n rule: ceil_log2.induct)
  case (1 n)
  show ?case
  proof (cases "n \<le> 1")
    case True
    with 1(2) show ?thesis
      by (subst (asm) ceil_log2.simps) simp
  next
    case False
    let ?m = "(n + 1) div 2"
    have unfold: "ceil_log2 n = Suc (ceil_log2 ?m)"
      using False by (subst ceil_log2.simps) simp
    show ?thesis
    proof (cases "0 < ceil_log2 ?m")
      case True
      with 1(1) False have "2 ^ (ceil_log2 ?m - 1) < ?m"
        by simp
      then have "2 * 2 ^ (ceil_log2 ?m - 1) < n"
        by linarith
      moreover have "2 * 2 ^ (ceil_log2 ?m - 1) = (2::nat) ^ ceil_log2 ?m"
        using True by (cases "ceil_log2 ?m") simp_all
      ultimately show ?thesis
        by (simp add: unfold)
    next
      case False': False
      with False show ?thesis
        by (simp add: unfold)
    qed
  qed
qed

lemma ceil_log2_power: "ceil_log2 (2 ^ k) = k"
proof (induction k)
  case 0
  show ?case by (subst ceil_log2.simps) simp
next
  case (Suc k)
  have "(2 ^ Suc k + 1) div 2 = (2::nat) ^ k"
    by simp
  moreover have "\<not> (2::nat) ^ Suc k \<le> 1"
  proof -
    have "(0::nat) < 2 ^ k"
      by simp
    then have "(1::nat) < 2 * 2 ^ k"
      by linarith
    then show ?thesis
      by simp
  qed
  ultimately show ?case
    using Suc by (subst ceil_log2.simps) simp
qed

lemma reserve_first_eq:
  "reserve_first pf n k =
     (if k = 0 then None
      else if inner_max_size pf < n then Some LengthError
      else if 0 < n \<and> (\<exists>j < k. \<not> grants_inner pf j n) then Some BadAlloc
      else None)"
proof (induction k)
  case 0
  show ?case by simp
next
  case (Suc k)
  show ?case
  proof (cases "k = 0")
    case True
    then show ?thesis
      by (simp add: reserve_def)
  next
    case False
    with Suc show ?thesis
      by (auto simp add: reserve_def less_Suc_eq)
  qed
qed

text \<open>
  The claim as first stated fails on both sides. Six buckets (not a power of two),
  bucket size 0 and 40 fingerprint bits are accepted without any error; and the valid
  parameters \<open>(524288, 1 << 63, 13)\<close> are rejected, by the \<open>std::length_error\<close> of
  \<open>reserve\<close>, raised after the vector of buckets has been allocated.
\<close>

theorem constructor_accepts_invalid_parameters:
  "UTXOManager lp64 6 0 40 zero_seed =
     Inr (\<lparr>BUCKET_SIZE = 0, NUM_BUCKETS = 6, MAX_RELOCATIONS = 100,
            FINGERPRINT_BITS = 40, BUCKET_BITS = 3\<rparr>,
          \<lparr>buckets = [[], [], [], [], [], []], rand_src = zero_seed, rand_calls = 0\<rparr>)
   \<and> UTXOManager lp64 524288 0x8000000000000000 13 zero_seed = Inl LengthError"
proof -
  have "ceil_log2 6 = 3"
    by code_simp
  moreover have "replicate 6 [] = [[], [], [], [], [], []]"
    by (simp add: eval_nat_numeral)
  ultimately show ?thesis
    by (simp add: UTXOManager_def allocate_buckets_def reserve_first_eq lp64_def)
qed

text \<open>
  Claim C8, as amended. The constructor validates no parameter. For every positive
  \<open>num_buckets\<close> and every \<open>bucket_size\<close> and \<open>fingerprint_bits\<close>, valid or not:
  whenever the two allocations succeed it returns a manager with \<open>num_buckets\<close> empty
  buckets, \<open>MAX_RELOCATIONS = 100\<close> and \<open>BUCKET_BITS = \<lceil>log2 num_buckets\<rceil>\<close>, which is a
  well-configured table when the bucket size is positive and the number of buckets a
  power of two; and it fails only with the exceptions of the allocations themselves:
  \<open>std::length_error\<close> exactly when \<open>num_buckets\<close> or (once the buckets are allocated)
  \<open>bucket_size\<close> exceeds the vector's \<open>max_size()\<close>, \<open>std::bad_alloc\<close> exactly when the
  allocator refuses the vector of buckets or a non-empty reservation.
\<close>

theorem constructor_validates_nothing:
  assumes "0 < unat num_buckets"
  shows "(unat num_buckets \<le> outer_max_size pf \<and> grants_outer pf (unat num_buckets)
          \<and> unat bucket_size \<le> inner_max_size pf
          \<and> (0 < unat bucket_size \<longrightarrow>
                (\<forall>j < unat num_buckets. grants_inner pf j (unat bucket_size)))
          \<longrightarrow> (\<exists>cfg s. UTXOManager pf num_buckets bucket_size fingerprint_bits seed = Inr (cfg, s)
                \<and> NUM_BUCKETS cfg = unat num_buckets \<and> BUCKET_SIZE cfg = unat bucket_size
                \<and> FINGERPRINT_BITS cfg = unat fingerprint_bits \<and> MAX_RELOCATIONS cfg = 100
                \<and> (unat num_buckets \<le> 2 ^ 32 \<longrightarrow>
                      unat num_buckets \<le> 2 ^ BUCKET_BITS cfg
                      \<and> (0 < BUCKET_BITS cfg \<longrightarrow> 2 ^ (BUCKET_BITS cfg - 1) < unat num_buckets))
                \<and> (0 < unat bucket_size \<and> unat num_buckets = 2 ^ BUCKET_BITS cfg
                      \<longrightarrow> well_configured cfg)
                \<and> s = new_manager cfg seed \<and> table_sized cfg s \<and> count s = 0))
       \<and> (UTXOManager pf num_buckets bucket_size fingerprint_bits seed = Inl LengthError
            \<longleftrightarrow> outer_max_size pf < unat num_buckets
                \<or> grants_outer pf (unat num_buckets) \<and> inner_max_size pf < unat bucket_size)
       \<and> (UTXOManager pf num_buckets bucket_size fingerprint_bits seed = Inl BadAlloc
            \<longleftrightarrow> unat num_buckets \<le> outer_max_size pf
                \<and> (\<not> grants_outer pf (unat num_buckets)
                    \<or> unat bucket_size \<le> inner_max_size pf \<and> 0 < unat bucket_size
                      \<and> (\<exists>j < unat num_buckets. \<not> grants_inner pf j (unat bucket_size))))"
  using assms ceil_log2_upper [of "unat num_buckets"] ceil_log2_lower [of "unat num_buckets"]
  by (auto simp add: UTXOManager_def allocate_buckets_def reserve_first_eq new_manager_def
      table_sized_def count_def well_configured_def Let_def)

theorem constructor_validates_nothing_witness:
  "0 < unat (524288 :: 64 word)
   \<and> UTXOManager lp64 524288 4 13 zero_seed \<noteq> Inl LengthError
   \<and> UTXOManager lp64 524288 4 13 zero_seed \<noteq> Inl BadAlloc
   \<and> UTXOManager lp64 524288 4 13 zero_seed
       = Inr (pcf_config\<lparr>MAX_RELOCATIONS := 100\<rparr>, new_manager pcf_config zero_seed)"
proof -
  have pos: "0 < unat (524288 :: 64 word)"
    by simp
  have "UTXOManager lp64 524288 4 13 zero_seed \<noteq> Inl LengthError"
    "UTXOManager lp64 524288 4 13 zero_seed \<noteq> Inl BadAlloc"
    using constructor_validates_nothing [OF pos, of lp64 4 13 zero_seed]
    by (simp_all add: lp64_def)
  moreover have "ceil_log2 524288 = 19"
    using ceil_log2_power [of 19] by simp
  then have "UTXOManager lp64 524288 4 13 zero_seed
       = Inr (pcf_config\<lparr>MAX_RELOCATIONS := 100\<rparr>, new_manager pcf_config zero_seed)"
    by (simp add: UTXOManager_def allocate_buckets_def reserve_first_eq lp64_def pcf_config_def
        new_manager_def)
  ultimately show ?thesis
    by simp
qed

end
